theory Spec2Isabelle
  imports Main "HOL-Library.Sublist"
begin

section \<open>The \<open>run view\<close> command of pkg/cmd/run/view/view.go\<close>

text \<open>
  The file holds three functions: the command's \<open>RunE\<close> closure inside \<open>NewCmdView\<close>,
  \<open>runView\<close> (retrieval) and \<open>renderRun\<close> (formatting and the exit decision), with the
  small helper \<open>titleForRun\<close>.  Everything they call in other packages (\<open>shared\<close>,
  \<open>utils\<close>, \<open>iostreams\<close>, \<open>cmdutil\<close>) is a collaborator.  Collaborators whose code is
  not part of view.go are parameters of the model, collected in the records
  \<open>ColorScheme\<close> and \<open>env\<close>; the theorems hold for every choice of them.
\<close>

subsection \<open>Data\<close>

text \<open>
  \<open>shared.Status\<close> and \<open>shared.Conclusion\<close> are string types; identifiers and line
  numbers are Go \<open>int\<close>s, printed with \<open>%d\<close>.  The records have the fields that
  view.go reads; \<open>Level\<close> is the severity of an annotation, from which its symbol is
  chosen.
\<close>

type_synonym Status = string
type_synonym Conclusion = string

record Step =
  Name :: string
  Status :: Status
  Conclusion :: Conclusion

record Job =
  ID :: int
  Name :: string
  Status :: Status
  Conclusion :: Conclusion
  Steps :: "Step list"

record Annotation =
  JobName :: string
  Message :: string
  Path :: string
  Level :: string
  StartLine :: int

text \<open>Instants are nanosecond counts; \<open>CreatedAt\<close> is a \<open>time.Time\<close>.\<close>

record Run =
  ID :: int
  Name :: string
  HeadBranch :: string
  Event :: string
  CreatedAt :: int
  Status :: Status
  Conclusion :: Conclusion
  URL :: string

text \<open>
  Go's \<open>error\<close> values that occur in view.go: \<open>errors.New s\<close>,
  \<open>&cmdutil.FlagError{Err: e}\<close>, the sentinel \<open>cmdutil.SilentError\<close>, and
  \<open>fmt.Errorf(prefix + "%w", e)\<close>, which keeps the wrapped error.  A function
  returning \<open>error\<close> returns \<open>error option\<close> (\<open>None\<close> is \<open>nil\<close>); a function
  returning \<open>(T, error)\<close> returns \<open>error + T\<close>.
\<close>

datatype error =
    New string
  | FlagError error
  | SilentError
  | Errorf string error

datatype http_client = HTTPClient string
datatype api_client = NewClientFromHTTP http_client
datatype Repo = Repo string

text \<open>The methods of \<open>*iostreams.ColorScheme\<close> that view.go calls.\<close>

record ColorScheme =
  Bold :: "string \<Rightarrow> string"
  Cyan :: "string \<Rightarrow> string"
  Gray :: "string \<Rightarrow> string"
  FailureIcon :: string

text \<open>
  Every call of a collaborator that may reach the network or the terminal is logged, in
  order, so that "called once", "not called" and "called before" are statements about
  the log.
\<close>

datatype event =
    CallHttpClient
  | CallBaseRepo
  | CallPromptForRun
  | CallGetRun string
  | CallGetJobs Run
  | CallGetAnnotations Job
  | StartProgressIndicator
  | StopProgressIndicator

text \<open>
  The mutable world: the \<open>IOStreams\<close> value behind \<open>opts.IO\<close> (bytes written to
  \<open>Out\<close>, whether the progress indicator is running, the two terminal flags, the
  colour scheme it hands out), the clock behind \<open>time.Now\<close>, and the log.
\<close>

record world =
  Out :: string
  progressIndicator :: bool
  isStdoutTTY :: bool
  isStdinTTY :: bool
  colorScheme :: ColorScheme
  clock :: int
  trace :: "event list"

text \<open>
  The functions of the packages \<open>shared\<close>, \<open>utils\<close> and \<open>fmt\<close> whose code is not in
  view.go.  Each answers as a function of its arguments.  \<open>Sprintf\<close> is \<open>fmt\<close>'s
  expansion of a format string that is only known at run time, with one string operand;
  formats that are literals in view.go are expanded in place.
\<close>

record env =
  PromptForRun :: "ColorScheme \<Rightarrow> api_client \<Rightarrow> Repo \<Rightarrow> error + string"
  GetRun :: "api_client \<Rightarrow> Repo \<Rightarrow> string \<Rightarrow> error + Run"
  GetJobs :: "api_client \<Rightarrow> Repo \<Rightarrow> Run \<Rightarrow> error + Job list"
  GetAnnotations :: "api_client \<Rightarrow> Repo \<Rightarrow> Job \<Rightarrow> error + Annotation list"
  Symbol :: "ColorScheme \<Rightarrow> Status \<Rightarrow> Conclusion \<Rightarrow> string"
  AnnotationSymbol :: "Annotation \<Rightarrow> ColorScheme \<Rightarrow> string"
  IsFailureState :: "Conclusion \<Rightarrow> bool"
  FuzzyAgo :: "int \<Rightarrow> string"
  Sprintf :: "string \<Rightarrow> string \<Rightarrow> string"

text \<open>\<open>type ViewOptions struct\<close>; \<open>IO\<close> is the world, and a function field is the
  result that calling it gives (\<open>Now\<close> the instant the clock shows).\<close>

record ViewOptions =
  HttpClient :: "error + http_client"
  BaseRepo :: "error + Repo"
  RunID :: string
  Verbose :: bool
  ExitStatus :: bool
  Prompt :: bool
  ShowProgress :: bool
  Now :: int

text \<open>The fields of \<open>*cmdutil.Factory\<close> that \<open>NewCmdView\<close> reads.\<close>

record Factory =
  HttpClient :: "error + http_client"
  BaseRepo :: "error + Repo"

subsection \<open>Constants and library functions\<close>

text \<open>Modelled from the spec: the constant \<open>shared.Failure\<close>, declared outside
  view.go; the spec gives its value as the conclusion "failure".\<close>

definition Failure :: Conclusion where
  "Failure = ''failure''"

definition nl :: string where
  "nl = [CHR 0x0A]"

text \<open>The separator \<open>" \<cdot> "\<close> of the header format: the middle dot is two bytes in UTF-8.\<close>

definition middot :: string where
  "middot = [CHR 0x20, CHR 0xC2, CHR 0xB7, CHR 0x20]"

text \<open>\<open>%d\<close> of an integer: its decimal digits, with a minus sign when negative.\<close>

function digits :: "nat \<Rightarrow> string" where
  "digits n = (if n < 10 then [''0123456789'' ! n]
               else digits (n div 10) @ [''0123456789'' ! (n mod 10)])"
  by pat_completeness auto
termination
  by (relation "measure (\<lambda>n. n)") auto

declare digits.simps [simp del]

definition fmt_d :: "int \<Rightarrow> string" where
  "fmt_d i = (if i < 0 then CHR ''-'' # digits (nat (- i)) else digits (nat i))"

text \<open>
  \<open>time.Time.Sub\<close>: the difference as a \<open>Duration\<close> (a 64-bit nanosecond count),
  saturating at the largest and smallest duration.
\<close>

definition maxDuration :: int where
  "maxDuration = 2 ^ 63 - 1"

definition minDuration :: int where
  "minDuration = - (2 ^ 63)"

definition Sub :: "int \<Rightarrow> int \<Rightarrow> int" where
  "Sub t u = (let d = t - u in
     if d > maxDuration then maxDuration
     else if d < minDuration then minDuration
     else d)"

text \<open>Modelled from the spec: \<open>ColorScheme.Cyanf\<close> and \<open>ColorScheme.Grayf\<close>, declared
  outside view.go; the spec renders them as the colour applied to the formatted text
  (\<open>cyan(run-id)\<close>, "a grayed line").\<close>

definition Cyanf_d :: "ColorScheme \<Rightarrow> int \<Rightarrow> string" where
  "Cyanf_d cs i = Cyan cs (fmt_d i)"

definition Grayf :: "ColorScheme \<Rightarrow> string \<Rightarrow> string" where
  "Grayf cs formatted = Gray cs formatted"

text \<open>\<open>fmt.Fprint\<close>-style writes to \<open>opts.IO.Out\<close>: \<open>Fprint\<close> appends the bytes,
  \<open>Fprintln\<close> appends them and a newline.\<close>

definition Fprint :: "string \<Rightarrow> world \<Rightarrow> world" where
  "Fprint s w = w\<lparr>Out := Out w @ s\<rparr>"

definition Fprintln :: "string \<Rightarrow> world \<Rightarrow> world" where
  "Fprintln s w = w\<lparr>Out := Out w @ s @ nl\<rparr>"

definition log_event :: "event \<Rightarrow> world \<Rightarrow> world" where
  "log_event e w = w\<lparr>trace := trace w @ [e]\<rparr>"

text \<open>Modelled from the spec: \<open>IOStreams.StartProgressIndicator\<close> and
  \<open>StopProgressIndicator\<close>, declared outside view.go; the spec calls the indicator
  the only stateful resource, shown by the one and stopped by the other.\<close>

definition StartProgress :: "world \<Rightarrow> world" where
  "StartProgress w = log_event StartProgressIndicator (w\<lparr>progressIndicator := True\<rparr>)"

definition StopProgress :: "world \<Rightarrow> world" where
  "StopProgress w = log_event StopProgressIndicator (w\<lparr>progressIndicator := False\<rparr>)"

subsection \<open>renderRun\<close>

text \<open>\<open>titleForRun\<close>: \<open>fmt.Sprintf("%s %s%s", cs.Bold(run.HeadBranch), run.Name, prID)\<close>
  with \<open>prID := ""\<close>.\<close>

definition titleForRun :: "ColorScheme \<Rightarrow> Run \<Rightarrow> string" where
  "titleForRun cs run =
     (let prID = [] in Bold cs (HeadBranch run) @ '' '' @ Run.Name run @ prID)"

text \<open>The loop over \<open>job.Steps\<close> (view.go lines 194-198).\<close>

fun renderSteps :: "env \<Rightarrow> ColorScheme \<Rightarrow> Step list \<Rightarrow> world \<Rightarrow> world" where
  "renderSteps env cs [] w = w"
| "renderSteps env cs (step # steps) w =
     renderSteps env cs steps
       (Fprint (''  '' @ Symbol env cs (Step.Status step) (Step.Conclusion step)
                @ '' '' @ Step.Name step @ nl) w)"

text \<open>The loop over \<open>jobs\<close> (lines 189-200).\<close>

fun renderJobs :: "env \<Rightarrow> ColorScheme \<Rightarrow> ViewOptions \<Rightarrow> Job list \<Rightarrow> world \<Rightarrow> world" where
  "renderJobs env cs opts [] w = w"
| "renderJobs env cs opts (job # jobs) w =
     (let symbol = Symbol env cs (Job.Status job) (Job.Conclusion job);
          id = Cyanf_d cs (Job.ID job);
          w1 = Fprint (symbol @ '' '' @ Job.Name job @ '' (ID '' @ id @ '')'' @ nl) w;
          w2 = (if Verbose opts \<or> IsFailureState env (Job.Conclusion job)
                then renderSteps env cs (Steps job) w1 else w1)
      in renderJobs env cs opts jobs w2)"

text \<open>The loop over \<open>annotations\<close> (lines 206-210).  The second write is
  \<open>fmt.Fprintln(out, cs.Grayf("%s: %s#%d\n", ...))\<close>: the format ends in a newline and
  \<open>Fprintln\<close> adds its own.\<close>

fun renderAnnotations :: "env \<Rightarrow> ColorScheme \<Rightarrow> Annotation list \<Rightarrow> world \<Rightarrow> world" where
  "renderAnnotations env cs [] w = w"
| "renderAnnotations env cs (a # annotations) w =
     (let w1 = Fprint (AnnotationSymbol env a cs @ '' '' @ Message a @ nl) w;
          w2 = Fprintln (Grayf cs (JobName a @ '': '' @ Path a @ ''#''
                                   @ fmt_d (StartLine a) @ nl)) w1
      in renderAnnotations env cs annotations w2)"

definition renderRun ::
  "env \<Rightarrow> ViewOptions \<Rightarrow> Run \<Rightarrow> Job list \<Rightarrow> Annotation list \<Rightarrow> world \<Rightarrow> error option \<times> world"
where
  "renderRun env opts run jobs annotations w0 =
     (let cs = colorScheme w0;
          title = titleForRun cs run;
          symbol = Symbol env cs (Run.Status run) (Run.Conclusion run);
          id = Cyanf_d cs (Run.ID run);
          w1 = Fprintln [] w0;
          w2 = Fprint (symbol @ '' '' @ title @ middot @ id @ nl) w1;
          ago = Sub (Now opts) (CreatedAt run);
          w3 = Fprint (''Triggered via '' @ Event run @ '' '' @ FuzzyAgo env ago @ nl) w2;
          w4 = Fprintln [] w3
      in
      if length jobs = 0 \<and> Run.Conclusion run = Failure then
        (let w5 = Fprint (FailureIcon cs @ '' ''
                    @ Bold cs ''This run likely failed because of a workflow file issue.''
                    @ nl) w4;
             w6 = Fprintln [] w5;
             w7 = Fprint (''For more information, see: '' @ Bold cs (URL run) @ nl) w6
         in
         if ExitStatus opts \<and> IsFailureState env (Run.Conclusion run)
         then (Some SilentError, w7)
         else (None, w7))
      else
        (let w5 = Fprintln (Bold cs ''JOBS'') w4;
             w6 = renderJobs env cs opts jobs w5;
             w7 = (if length annotations > 0
                   then renderAnnotations env cs annotations
                          (Fprintln (Bold cs ''ANNOTATIONS'') (Fprintln [] w6))
                   else w6);
             w8 = Fprintln [] w7;
             w9 = Fprintln ''For more information about a job, try: gh job view <job-id>'' w8;
             w10 = Fprint (Sprintf env (Gray cs (''view this run on GitHub: %s'' @ nl))
                             (URL run)) w9
         in
         if ExitStatus opts \<and> IsFailureState env (Run.Conclusion run)
         then (Some SilentError, w10)
         else (None, w10)))"

subsection \<open>runView\<close>

text \<open>The loop that fetches the annotations of each job (view.go lines 117-127):
  \<open>annotations\<close> accumulates, and the first error leaves the loop by \<open>break\<close> with
  \<open>annotationErr\<close> set.  The result is the pair of the two variables after the loop.\<close>

fun annotationsLoop ::
  "env \<Rightarrow> api_client \<Rightarrow> Repo \<Rightarrow> Job list \<Rightarrow> Annotation list \<Rightarrow> world
     \<Rightarrow> (Annotation list \<times> error option) \<times> world"
where
  "annotationsLoop env client repo [] annotations w = ((annotations, None), w)"
| "annotationsLoop env client repo (job # jobs) annotations w =
     (let w' = log_event (CallGetAnnotations job) w in
      case GetAnnotations env client repo job of
        Inl annotationErr \<Rightarrow> ((annotations, Some annotationErr), w')
      | Inr as \<Rightarrow> annotationsLoop env client repo jobs (annotations @ as) w')"

definition runView :: "env \<Rightarrow> ViewOptions \<Rightarrow> world \<Rightarrow> error option \<times> world" where
  "runView env opts w0 =
     (let wa = log_event CallHttpClient w0 in
      case ViewOptions.HttpClient opts of
        Inl err \<Rightarrow> (Some (Errorf ''failed to create http client: '' err), wa)
      | Inr c \<Rightarrow>
     (let client = NewClientFromHTTP c;
          wb = log_event CallBaseRepo wa in
      case ViewOptions.BaseRepo opts of
        Inl err \<Rightarrow> (Some (Errorf ''failed to determine base repo: '' err), wb)
      | Inr repo \<Rightarrow>
     (case (if Prompt opts
            then (PromptForRun env (colorScheme wb) client repo,
                  log_event CallPromptForRun wb)
            else (Inr (RunID opts), wb)) of
        (Inl err, wc) \<Rightarrow> (Some err, wc)
      | (Inr runID, wc) \<Rightarrow>
     (let wd = (if ShowProgress opts then StartProgress wc else wc);
          we = log_event (CallGetRun runID) wd in
      case GetRun env client repo runID of
        Inl err \<Rightarrow> (Some (Errorf ''failed to get run: '' err), we)
      | Inr run \<Rightarrow>
     (let wf = log_event (CallGetJobs run) we in
      case GetJobs env client repo run of
        Inl err \<Rightarrow> (Some (Errorf ''failed to get jobs: '' err), wf)
      | Inr jobs \<Rightarrow>
     (case annotationsLoop env client repo jobs [] wf of
        ((annotations, Some annotationErr), wg) \<Rightarrow>
          (Some (Errorf ''failed to get annotations: '' annotationErr), wg)
      | ((annotations, None), wg) \<Rightarrow>
     (let wh = (if ShowProgress opts then StopProgress wg else wg) in
      case renderRun env opts run jobs annotations wh of
        (Some err, wi) \<Rightarrow> (Some err, wi)
      | (None, wi) \<Rightarrow> (None, wi))))))))"

subsection \<open>The command's RunE\<close>

text \<open>
  The closure \<open>RunE\<close> of \<open>NewCmdView\<close> (lines 54-73).  \<open>opts\<close> is the value built by
  \<open>NewCmdView\<close>, with \<open>Verbose\<close> and \<open>ExitStatus\<close> as the flag parser left them;
  \<open>args\<close> are the positional arguments, at most one (\<open>cobra.MaximumNArgs(1)\<close>);
  \<open>runF\<close> is the optional replacement for \<open>runView\<close>.
\<close>

definition RunE ::
  "env \<Rightarrow> Factory \<Rightarrow> (ViewOptions \<Rightarrow> world \<Rightarrow> error option \<times> world) option
     \<Rightarrow> ViewOptions \<Rightarrow> string list \<Rightarrow> world \<Rightarrow> error option \<times> world"
where
  "RunE env f runF opts0 args w =
     (let opts1 = opts0\<lparr>ViewOptions.BaseRepo := Factory.BaseRepo f\<rparr>;
          terminal = (isStdoutTTY w \<and> isStdinTTY w);
          opts2 = opts1\<lparr>ShowProgress := terminal\<rparr>
      in
      if length args > 0 then
        (let opts3 = opts2\<lparr>RunID := args ! 0\<rparr> in
         case runF of Some g \<Rightarrow> g opts3 w | None \<Rightarrow> runView env opts3 w)
      else if \<not> terminal then
        (Some (FlagError (New ''expected a run ID'')), w)
      else
        (let opts3 = opts2\<lparr>Prompt := True\<rparr> in
         case runF of Some g \<Rightarrow> g opts3 w | None \<Rightarrow> runView env opts3 w))"

text \<open>The options as \<open>NewCmdView\<close> builds them (lines 34-38) and the flag parser fills
  them; \<open>BaseRepo\<close> is assigned by \<open>RunE\<close> before its first use.\<close>

definition NewCmdView_opts :: "Factory \<Rightarrow> bool \<Rightarrow> bool \<Rightarrow> world \<Rightarrow> ViewOptions" where
  "NewCmdView_opts f verbose exitStatus w =
     \<lparr>ViewOptions.HttpClient = Factory.HttpClient f,
      ViewOptions.BaseRepo = Factory.BaseRepo f,
      RunID = [], Verbose = verbose, ExitStatus = exitStatus,
      Prompt = False, ShowProgress = False, Now = clock w\<rparr>"

subsection \<open>The layout in the spec's words\<close>

text \<open>
  The pieces of the output as the specification words them, for comparison with what
  \<open>renderRun\<close> writes.  \<open>spec_header\<close> is the header line of rule 1 of the renderer,
  \<open>spec_annotation\<close> the two lines of an annotation of rule 6.
\<close>

definition spec_header :: "env \<Rightarrow> ColorScheme \<Rightarrow> Run \<Rightarrow> string" where
  "spec_header env cs run =
     nl @ Symbol env cs (Run.Status run) (Run.Conclusion run) @ '' ''
        @ Bold cs (HeadBranch run) @ Run.Name run @ middot @ Cyan cs (fmt_d (Run.ID run)) @ nl"

definition spec_annotation :: "env \<Rightarrow> ColorScheme \<Rightarrow> Annotation \<Rightarrow> string" where
  "spec_annotation env cs a =
     AnnotationSymbol env a cs @ '' '' @ Message a @ nl
       @ Gray cs (JobName a @ '': '' @ Path a @ ''#'' @ fmt_d (StartLine a)) @ nl"

text \<open>An error that \<open>fmt.Errorf\<close> wrapped with a context.\<close>

definition is_wrapped :: "error \<Rightarrow> bool" where
  "is_wrapped e = (case e of Errorf ctx inner \<Rightarrow> True | _ \<Rightarrow> False)"

subsection \<open>The parts of the output in closed form\<close>

text \<open>
  What the writes of \<open>renderRun\<close> and its loops add up to, piece by piece: the header
  block (lines 165-171), a job with its steps (lines 190-199), an annotation (lines
  207-209), the annotations section (lines 202-211) and the footer (lines 213-215).  The
  lemmas of the next section prove the loops equal to these forms.
\<close>

definition header :: "env \<Rightarrow> ColorScheme \<Rightarrow> ViewOptions \<Rightarrow> Run \<Rightarrow> string" where
  "header env cs opts run =
     nl @ Symbol env cs (Run.Status run) (Run.Conclusion run) @ '' ''
        @ Bold cs (HeadBranch run) @ '' '' @ Run.Name run @ middot
        @ Cyan cs (fmt_d (Run.ID run)) @ nl
        @ ''Triggered via '' @ Event run @ '' ''
        @ FuzzyAgo env (Sub (Now opts) (CreatedAt run)) @ nl
        @ nl"

definition footer :: "env \<Rightarrow> ColorScheme \<Rightarrow> Run \<Rightarrow> string" where
  "footer env cs run =
     nl @ ''For more information about a job, try: gh job view <job-id>'' @ nl
        @ Sprintf env (Gray cs (''view this run on GitHub: %s'' @ nl)) (URL run)"

definition annotation_lines :: "env \<Rightarrow> ColorScheme \<Rightarrow> Annotation \<Rightarrow> string" where
  "annotation_lines env cs a =
     AnnotationSymbol env a cs @ '' '' @ Message a @ nl
       @ Gray cs (JobName a @ '': '' @ Path a @ ''#'' @ fmt_d (StartLine a) @ nl) @ nl"

definition annotations_section :: "env \<Rightarrow> ColorScheme \<Rightarrow> Annotation list \<Rightarrow> string" where
  "annotations_section env cs annotations =
     (if annotations = [] then []
      else nl @ Bold cs ''ANNOTATIONS'' @ nl
           @ concat (map (annotation_lines env cs) annotations))"

definition step_line :: "env \<Rightarrow> ColorScheme \<Rightarrow> Step \<Rightarrow> string" where
  "step_line env cs step =
     ''  '' @ Symbol env cs (Step.Status step) (Step.Conclusion step)
       @ '' '' @ Step.Name step @ nl"

definition job_line :: "env \<Rightarrow> ColorScheme \<Rightarrow> Job \<Rightarrow> string" where
  "job_line env cs job =
     Symbol env cs (Job.Status job) (Job.Conclusion job) @ '' '' @ Job.Name job
       @ '' (ID '' @ Cyan cs (fmt_d (Job.ID job)) @ '')'' @ nl"

definition job_block :: "env \<Rightarrow> ColorScheme \<Rightarrow> ViewOptions \<Rightarrow> Job \<Rightarrow> string" where
  "job_block env cs opts job =
     job_line env cs job
       @ (if Verbose opts \<or> IsFailureState env (Job.Conclusion job)
          then concat (map (step_line env cs) (Steps job)) else [])"

subsection \<open>A sample environment\<close>

text \<open>
  Concrete collaborators on which the model is evaluated: a colour scheme with colours
  switched off, so every colour function returns its argument, and a small repository
  of runs.  Run 3 succeeded and has one job; run 1234 failed and has a succeeding
  and a failing job, the failing one with one annotation; run 7 failed without jobs;
  run 500 has a job whose annotations cannot be fetched; the jobs of run 8 cannot be
  fetched.
\<close>

definition plain_cs :: ColorScheme where
  "plain_cs = \<lparr>Bold = (\<lambda>s. s), Cyan = (\<lambda>s. s), Gray = (\<lambda>s. s), FailureIcon = ''X''\<rparr>"

definition check_mark :: string where
  "check_mark = [CHR 0xE2, CHR 0x9C, CHR 0x93]"

definition sample_Symbol :: "ColorScheme \<Rightarrow> Status \<Rightarrow> Conclusion \<Rightarrow> string" where
  "sample_Symbol cs status conclusion =
     (if status = ''completed'' then
        (if conclusion = ''success'' then check_mark
         else if conclusion = ''skipped'' \<or> conclusion = ''cancelled'' \<or> conclusion = ''neutral''
         then ''-'' else FailureIcon cs)
      else ''-'')"

definition sample_IsFailureState :: "Conclusion \<Rightarrow> bool" where
  "sample_IsFailureState c =
     (c = ''action_required'' \<or> c = ''failure'' \<or> c = ''startup_failure'' \<or> c = ''timed_out'')"

definition sample_FuzzyAgo :: "int \<Rightarrow> string" where
  "sample_FuzzyAgo ago =
     (if ago < 60000000000 then ''less than a minute ago''
      else ''about '' @ fmt_d (ago div 60000000000) @ '' minutes ago'')"

fun sample_Sprintf :: "string \<Rightarrow> string \<Rightarrow> string" where
  "sample_Sprintf [] a = []"
| "sample_Sprintf [c] a = [c]"
| "sample_Sprintf (c # d # r) a =
     (if c = CHR ''%'' \<and> d = CHR ''s'' then a @ r else c # sample_Sprintf (d # r) a)"

definition step1 :: Step where
  "step1 = \<lparr>Step.Name = ''fob the barz'', Step.Status = ''completed'',
            Step.Conclusion = ''success''\<rparr>"

definition step2 :: Step where
  "step2 = \<lparr>Step.Name = ''barz the fob'', Step.Status = ''completed'',
            Step.Conclusion = ''success''\<rparr>"

definition step3 :: Step where
  "step3 = \<lparr>Step.Name = ''quux the barz'', Step.Status = ''completed'',
            Step.Conclusion = ''failure''\<rparr>"

definition cool_job :: Job where
  "cool_job = \<lparr>Job.ID = 10, Job.Name = ''cool job'', Job.Status = ''completed'',
               Job.Conclusion = ''success'', Steps = [step1, step2]\<rparr>"

definition sad_job :: Job where
  "sad_job = \<lparr>Job.ID = 20, Job.Name = ''sad job'', Job.Status = ''completed'',
              Job.Conclusion = ''failure'', Steps = [step2, step3]\<rparr>"

definition lost_job :: Job where
  "lost_job = \<lparr>Job.ID = 30, Job.Name = ''lost job'', Job.Status = ''completed'',
               Job.Conclusion = ''success'', Steps = []\<rparr>"

definition sad_annotation :: Annotation where
  "sad_annotation = \<lparr>JobName = ''sad job'', Message = ''the job is sad'',
                     Path = ''blaze.py'', Level = ''failure'', StartLine = 420\<rparr>"

definition good_run :: Run where
  "good_run = \<lparr>Run.ID = 3, Run.Name = ''successful'', HeadBranch = ''trunk'',
               Event = ''push'', CreatedAt = 0, Run.Status = ''completed'',
               Run.Conclusion = ''success'', URL = ''runs/3''\<rparr>"

definition failed_run :: Run where
  "failed_run = \<lparr>Run.ID = 1234, Run.Name = ''failed'', HeadBranch = ''trunk'',
                 Event = ''push'', CreatedAt = 0, Run.Status = ''completed'',
                 Run.Conclusion = ''failure'', URL = ''runs/1234''\<rparr>"

definition broken_run :: Run where
  "broken_run = \<lparr>Run.ID = 7, Run.Name = ''broken'', HeadBranch = ''trunk'',
                 Event = ''push'', CreatedAt = 0, Run.Status = ''completed'',
                 Run.Conclusion = ''failure'', URL = ''runs/7''\<rparr>"

definition timed_out_run :: Run where
  "timed_out_run = \<lparr>Run.ID = 8, Run.Name = ''slow'', HeadBranch = ''trunk'',
                    Event = ''push'', CreatedAt = 0, Run.Status = ''completed'',
                    Run.Conclusion = ''timed_out'', URL = ''runs/8''\<rparr>"

definition flaky_run :: Run where
  "flaky_run = \<lparr>Run.ID = 500, Run.Name = ''flaky'', HeadBranch = ''trunk'',
                Event = ''push'', CreatedAt = 0, Run.Status = ''completed'',
                Run.Conclusion = ''failure'', URL = ''runs/500''\<rparr>"

definition sample_GetRun :: "api_client \<Rightarrow> Repo \<Rightarrow> string \<Rightarrow> error + Run" where
  "sample_GetRun client repo runID =
     (if runID = ''3'' then Inr good_run
      else if runID = ''1234'' then Inr failed_run
      else if runID = ''7'' then Inr broken_run
      else if runID = ''500'' then Inr flaky_run
      else if runID = ''8'' then Inr timed_out_run
      else Inl (New ''HTTP 404: Not Found''))"

definition sample_GetJobs :: "api_client \<Rightarrow> Repo \<Rightarrow> Run \<Rightarrow> error + Job list" where
  "sample_GetJobs client repo run =
     (if Run.ID run = 3 then Inr [cool_job]
      else if Run.ID run = 1234 then Inr [cool_job, sad_job]
      else if Run.ID run = 7 then Inr []
      else if Run.ID run = 500 then Inr [sad_job, lost_job, cool_job]
      else Inl (New ''HTTP 500: Internal Server Error''))"

definition sample_GetAnnotations :: "api_client \<Rightarrow> Repo \<Rightarrow> Job \<Rightarrow> error + Annotation list" where
  "sample_GetAnnotations client repo job =
     (if Job.ID job = 10 then Inr []
      else if Job.ID job = 20 then Inr [sad_annotation]
      else Inl (New ''HTTP 502: Bad Gateway''))"

definition sample_PromptForRun :: "ColorScheme \<Rightarrow> api_client \<Rightarrow> Repo \<Rightarrow> error + string" where
  "sample_PromptForRun cs client repo =
     (if repo = Repo ''cli/cli'' then Inr ''1234'' else Inl (New ''no runs found''))"

definition sample_AnnotationSymbol :: "Annotation \<Rightarrow> ColorScheme \<Rightarrow> string" where
  "sample_AnnotationSymbol a cs =
     (if Level a = ''failure'' then FailureIcon cs
      else if Level a = ''warning'' then ''!'' else ''-'')"

definition sample_env :: env where
  "sample_env =
     \<lparr>PromptForRun = sample_PromptForRun, GetRun = sample_GetRun, GetJobs = sample_GetJobs,
      GetAnnotations = sample_GetAnnotations, Symbol = sample_Symbol,
      AnnotationSymbol = sample_AnnotationSymbol, IsFailureState = sample_IsFailureState,
      FuzzyAgo = sample_FuzzyAgo, Sprintf = sample_Sprintf\<rparr>"

definition sample_factory :: Factory where
  "sample_factory = \<lparr>Factory.HttpClient = Inr (HTTPClient ''github.com''),
                     Factory.BaseRepo = Inr (Repo ''cli/cli'')\<rparr>"

definition empty_factory :: Factory where
  "empty_factory = \<lparr>Factory.HttpClient = Inr (HTTPClient ''github.com''),
                    Factory.BaseRepo = Inr (Repo ''cli/empty'')\<rparr>"

definition sample_opts :: ViewOptions where
  "sample_opts =
     \<lparr>ViewOptions.HttpClient = Inr (HTTPClient ''github.com''),
      ViewOptions.BaseRepo = Inr (Repo ''cli/cli''),
      RunID = ''1234'', Verbose = False, ExitStatus = False,
      Prompt = False, ShowProgress = False, Now = 3540000000000\<rparr>"

text \<open>A terminal session and a piped one, nothing written yet.\<close>

definition tty_world :: world where
  "tty_world = \<lparr>Out = [], progressIndicator = False, isStdoutTTY = True, isStdinTTY = True,
                colorScheme = plain_cs, clock = 3540000000000, trace = []\<rparr>"

definition pipe_world :: world where
  "pipe_world = \<lparr>Out = [], progressIndicator = False, isStdoutTTY = False, isStdinTTY = True,
                 colorScheme = plain_cs, clock = 3540000000000, trace = []\<rparr>"

subsection \<open>Notions for the statements about runView\<close>

text \<open>The run ID that retrieval uses: the prompt's answer when \<open>opts.Prompt\<close> is set,
  \<open>opts.RunID\<close> otherwise (lines 94-102).\<close>

definition resolved :: "env \<Rightarrow> ViewOptions \<Rightarrow> world \<Rightarrow> api_client \<Rightarrow> Repo \<Rightarrow> error + string" where
  "resolved env opts w client repo =
     (if Prompt opts then PromptForRun env (colorScheme w) client repo else Inr (RunID opts))"

text \<open>The world when \<open>GetRun\<close> is about to be called (lines 83-106): the client and the
  repository were obtained, the prompt was shown if needed, and the indicator was started
  if \<open>opts.ShowProgress\<close> is set.\<close>

definition started :: "ViewOptions \<Rightarrow> world \<Rightarrow> world" where
  "started opts w =
     (let wb = log_event CallBaseRepo (log_event CallHttpClient w);
          wc = (if Prompt opts then log_event CallPromptForRun wb else wb)
      in if ShowProgress opts then StartProgress wc else wc)"

text \<open>The calls logged up to that point.\<close>

definition started_events :: "ViewOptions \<Rightarrow> event list" where
  "started_events opts =
     [CallHttpClient, CallBaseRepo]
       @ (if Prompt opts then [CallPromptForRun] else [])
       @ (if ShowProgress opts then [StartProgressIndicator] else [])"

text \<open>A result \<open>r\<close> of a command started in world \<open>w\<close> stops with the error \<open>err\<close>
  after exactly the calls \<open>evs\<close>, having written nothing.\<close>

definition stops_with :: "error option \<times> world \<Rightarrow> world \<Rightarrow> error \<Rightarrow> event list \<Rightarrow> bool" where
  "stops_with r w err evs =
     (fst r = Some err \<and> Out (snd r) = Out w \<and> trace (snd r) = trace w @ evs)"

section \<open>Properties\<close>

lemmas sample_defs = sample_env_def plain_cs_def sample_Symbol_def sample_IsFailureState_def
  sample_FuzzyAgo_def sample_AnnotationSymbol_def sample_GetRun_def sample_GetJobs_def
  sample_GetAnnotations_def sample_PromptForRun_def check_mark_def
  step1_def step2_def step3_def cool_job_def sad_job_def lost_job_def sad_annotation_def
  good_run_def failed_run_def broken_run_def timed_out_run_def flaky_run_def
  sample_factory_def empty_factory_def sample_opts_def tty_world_def pipe_world_def

subsection \<open>Writes and loops\<close>

lemma Out_Fprint [simp]: "Out (Fprint s w) = Out w @ s"
  by (simp add: Fprint_def)

lemma Out_Fprintln [simp]: "Out (Fprintln s w) = Out w @ s @ nl"
  by (simp add: Fprintln_def)

lemma renderSteps_eq:
  "renderSteps env cs steps w = Fprint (concat (map (step_line env cs) steps)) w"
  by (induction steps arbitrary: w) (simp_all add: Fprint_def step_line_def)

lemma renderJobs_eq:
  "renderJobs env cs opts jobs w = Fprint (concat (map (job_block env cs opts) jobs)) w"
  by (induction jobs arbitrary: w)
     (simp_all add: Fprint_def renderSteps_eq job_block_def job_line_def Cyanf_d_def Let_def)

lemma renderAnnotations_eq:
  "renderAnnotations env cs annotations w =
     Fprint (concat (map (annotation_lines env cs) annotations)) w"
  by (induction annotations arbitrary: w)
     (simp_all add: Fprint_def Fprintln_def annotation_lines_def Grayf_def Let_def)

lemma renderRun_workflow_issue_Out:
  assumes "jobs = []" and "Run.Conclusion run = Failure"
  shows "Out (snd (renderRun env opts run jobs annotations w)) =
           Out w @ header env (colorScheme w) opts run
             @ FailureIcon (colorScheme w) @ '' ''
             @ Bold (colorScheme w) ''This run likely failed because of a workflow file issue.''
             @ nl @ nl
             @ ''For more information, see: '' @ Bold (colorScheme w) (URL run) @ nl"
  using assms
  by (simp add: renderRun_def Let_def header_def titleForRun_def Cyanf_d_def
        Fprint_def Fprintln_def)

lemma renderRun_normal_Out:
  assumes "\<not> (jobs = [] \<and> Run.Conclusion run = Failure)"
  shows "Out (snd (renderRun env opts run jobs annotations w)) =
           Out w @ header env (colorScheme w) opts run
             @ Bold (colorScheme w) ''JOBS'' @ nl
             @ concat (map (job_block env (colorScheme w) opts) jobs)
             @ annotations_section env (colorScheme w) annotations
             @ footer env (colorScheme w) run"
  using assms
  by (auto simp add: renderRun_def Let_def header_def footer_def titleForRun_def Cyanf_d_def
        renderJobs_eq renderAnnotations_eq annotations_section_def Fprint_def Fprintln_def)

subsection \<open>The exit decision\<close>

text \<open>
  The decision at the end of \<open>renderRun\<close>, which both of its branches make in the same
  way (lines 181-184 and 217-221).
\<close>

lemma renderRun_exit_decision:
  "fst (renderRun env opts run jobs annotations w) =
     (if ExitStatus opts \<and> IsFailureState env (Run.Conclusion run)
      then Some SilentError else None)"
  by (simp add: renderRun_def Let_def)

subsection \<open>The log, the indicator and the annotation loop\<close>

lemma trace_log_event [simp]: "trace (log_event e w) = trace w @ [e]"
  by (simp add: log_event_def)

lemma Out_log_event [simp]: "Out (log_event e w) = Out w"
  by (simp add: log_event_def)

lemma progress_log_event [simp]: "progressIndicator (log_event e w) = progressIndicator w"
  by (simp add: log_event_def)

lemma colorScheme_log_event [simp]: "colorScheme (log_event e w) = colorScheme w"
  by (simp add: log_event_def)

lemma StartProgress_simps [simp]:
  "trace (StartProgress w) = trace w @ [StartProgressIndicator]"
  "Out (StartProgress w) = Out w"
  "progressIndicator (StartProgress w) = True"
  "colorScheme (StartProgress w) = colorScheme w"
  by (simp_all add: StartProgress_def)

lemma StopProgress_simps [simp]:
  "trace (StopProgress w) = trace w @ [StopProgressIndicator]"
  "Out (StopProgress w) = Out w"
  "progressIndicator (StopProgress w) = False"
  "colorScheme (StopProgress w) = colorScheme w"
  by (simp_all add: StopProgress_def)

text \<open>The annotation loop, when the first failing job is found after a prefix of jobs whose
  annotations were fetched.\<close>

lemma annotationsLoop_fails:
  assumes "\<forall>j \<in> set pre. \<exists>as. GetAnnotations env client repo j = Inr as"
    and "GetAnnotations env client repo job = Inl e"
  shows "\<exists>collected w'. annotationsLoop env client repo (pre @ job # post) acc w
            = ((collected, Some e), w')
          \<and> trace w' = trace w @ map CallGetAnnotations (pre @ [job])
          \<and> Out w' = Out w \<and> progressIndicator w' = progressIndicator w"
  using assms
proof (induction pre arbitrary: acc w)
  case Nil
  then show ?case by simp
next
  case (Cons j pre)
  from Cons.prems obtain as where as: "GetAnnotations env client repo j = Inr as"
    by auto
  from Cons.prems have rest: "\<forall>j \<in> set pre. \<exists>as. GetAnnotations env client repo j = Inr as"
    by simp
  from Cons.IH [OF rest Cons.prems(2), of "acc @ as" "log_event (CallGetAnnotations j) w"]
  show ?case using as by (auto simp add: Let_def)
qed

lemma annotationsLoop_result:
  "annotationsLoop env client repo jobs acc w = ((anns, r), w') \<Longrightarrow>
     Out w' = Out w \<and> progressIndicator w' = progressIndicator w
     \<and> colorScheme w' = colorScheme w
     \<and> (\<exists>called. trace w' = trace w @ map CallGetAnnotations called \<and> prefix called jobs)"
proof (induction jobs arbitrary: acc w)
  case Nil
  then show ?case by auto
next
  case (Cons j jobs)
  show ?case
  proof (cases "GetAnnotations env client repo j")
    case (Inl e)
    with Cons.prems have "w' = log_event (CallGetAnnotations j) w" by (simp add: Let_def)
    then have "trace w' = trace w @ map CallGetAnnotations [j]" by simp
    moreover have "prefix [j] (j # jobs)" by simp
    ultimately show ?thesis using \<open>w' = log_event (CallGetAnnotations j) w\<close> by (metis Out_log_event progress_log_event colorScheme_log_event)
  next
    case (Inr as)
    with Cons.prems have "annotationsLoop env client repo jobs (acc @ as) (log_event (CallGetAnnotations j) w) = ((anns, r), w')"
      by (simp add: Let_def)
    from Cons.IH [OF this] obtain called where
      c: "Out w' = Out w" "progressIndicator w' = progressIndicator w" "colorScheme w' = colorScheme w"
        "trace w' = (trace w @ [CallGetAnnotations j]) @ map CallGetAnnotations called" "prefix called jobs"
      by auto
    then have "trace w' = trace w @ map CallGetAnnotations (j # called)" "prefix (j # called) (j # jobs)"
      by simp_all
    with c show ?thesis by blast
  qed
qed


subsection \<open>What renderRun writes\<close>

text \<open>
  Claim C2.  For a run without jobs whose conclusion equals "failure", \<open>renderRun\<close> writes,
  after the header block, the failure icon and the bold sentence "This run likely failed
  because of a workflow file issue.", an empty line, and the line that points to the
  run's URL, and nothing else: the output ends there, so there is no JOBS section, no
  ANNOTATIONS section and no footer.
\<close>

theorem renderRun_workflow_file_issue:
  assumes "length jobs = 0" and "Run.Conclusion run = Failure"
  shows "Out (snd (renderRun env opts run jobs annotations w)) =
           Out w @ header env (colorScheme w) opts run
             @ FailureIcon (colorScheme w) @ '' ''
             @ Bold (colorScheme w) ''This run likely failed because of a workflow file issue.''
             @ nl
             @ nl
             @ ''For more information, see: '' @ Bold (colorScheme w) (URL run) @ nl"
  using assms by (simp add: renderRun_workflow_issue_Out)

lemmas eval_defs = Failure_def header_def footer_def nl_def middot_def fmt_d_def digits.simps
  Sub_def maxDuration_def minDuration_def job_block_def job_line_def step_line_def
  annotations_section_def annotation_lines_def spec_header_def spec_annotation_def

theorem renderRun_workflow_file_issue_witness:
  "length ([] :: Job list) = 0 \<and> Run.Conclusion broken_run = Failure
   \<and> Out (snd (renderRun sample_env sample_opts broken_run [] [] tty_world)) =
       nl @ ''X trunk broken'' @ middot @ ''7'' @ nl
       @ ''Triggered via push about 59 minutes ago'' @ nl
       @ nl
       @ ''X This run likely failed because of a workflow file issue.'' @ nl
       @ nl
       @ ''For more information, see: runs/7'' @ nl"
  using renderRun_workflow_file_issue [of "[]" broken_run sample_env sample_opts "[]" tty_world]
  by (simp add: sample_defs eval_defs)

text \<open>
  Claim C3.  When there are jobs, each job contributes its job line, followed by one line
  per step (two spaces, the step's status symbol, a space, the step's name) in the order
  of \<open>job.Steps\<close> exactly when \<open>--verbose\<close> is set or the job's conclusion is a failure
  state; otherwise the job contributes its job line only.
\<close>

theorem renderRun_job_steps:
  assumes "jobs \<noteq> []"
  shows "Out (snd (renderRun env opts run jobs annotations w)) =
           Out w @ header env (colorScheme w) opts run
             @ Bold (colorScheme w) ''JOBS'' @ nl
             @ concat (map (\<lambda>job.
                  job_line env (colorScheme w) job
                  @ (if Verbose opts \<or> IsFailureState env (Job.Conclusion job)
                     then concat (map (\<lambda>step.
                            ''  '' @ Symbol env (colorScheme w) (Step.Status step) (Step.Conclusion step)
                            @ '' '' @ Step.Name step @ nl) (Steps job))
                     else [])) jobs)
             @ annotations_section env (colorScheme w) annotations
             @ footer env (colorScheme w) run"
proof -
  have sl: "step_line env (colorScheme w) = (\<lambda>step.
              ''  '' @ Symbol env (colorScheme w) (Step.Status step) (Step.Conclusion step)
              @ '' '' @ Step.Name step @ nl)"
    by (rule ext) (simp add: step_line_def)
  have "job_block env (colorScheme w) opts = (\<lambda>job.
                  job_line env (colorScheme w) job
                  @ (if Verbose opts \<or> IsFailureState env (Job.Conclusion job)
                     then concat (map (\<lambda>step.
                            ''  '' @ Symbol env (colorScheme w) (Step.Status step) (Step.Conclusion step)
                            @ '' '' @ Step.Name step @ nl) (Steps job))
                     else []))"
    by (rule ext) (simp add: job_block_def sl)
  moreover from assms have "\<not> (jobs = [] \<and> Run.Conclusion run = Failure)" by simp
  ultimately show ?thesis using renderRun_normal_Out [of jobs run env opts annotations w] by simp
qed

theorem renderRun_job_steps_witness:
  "[cool_job, sad_job] \<noteq> []
   \<and> Out (snd (renderRun sample_env sample_opts failed_run [cool_job, sad_job] [] tty_world)) =
       header sample_env plain_cs sample_opts failed_run
       @ ''JOBS'' @ nl
       @ check_mark @ '' cool job (ID 10)'' @ nl
       @ ''X sad job (ID 20)'' @ nl
       @ ''  '' @ check_mark @ '' barz the fob'' @ nl
       @ ''  X quux the barz'' @ nl
       @ footer sample_env plain_cs failed_run
   \<and> Out (snd (renderRun sample_env (sample_opts\<lparr>Verbose := True\<rparr>) failed_run [cool_job, sad_job] [] tty_world)) =
       header sample_env plain_cs sample_opts failed_run
       @ ''JOBS'' @ nl
       @ check_mark @ '' cool job (ID 10)'' @ nl
       @ ''  '' @ check_mark @ '' fob the barz'' @ nl
       @ ''  '' @ check_mark @ '' barz the fob'' @ nl
       @ ''X sad job (ID 20)'' @ nl
       @ ''  '' @ check_mark @ '' barz the fob'' @ nl
       @ ''  X quux the barz'' @ nl
       @ footer sample_env plain_cs failed_run"
  using renderRun_job_steps [of "[cool_job, sad_job]" sample_env sample_opts failed_run "[]" tty_world]
    renderRun_job_steps [of "[cool_job, sad_job]" sample_env "sample_opts\<lparr>Verbose := True\<rparr>" failed_run "[]" tty_world]
  by (simp add: sample_defs eval_defs)

text \<open>
  Claim C8, as amended.  The output starts with an empty line and the header line: the
  status symbol, a space, the head branch in bold, a space, the run's name, the
  separator with the middle dot, and the run's ID in cyan.  (The claim as stated has no
  space between branch and name; \<open>titleForRun\<close> formats them with \<open>"%s %s%s"\<close>.)
\<close>

theorem renderRun_header:
  "prefix (Out w @ nl
            @ Symbol env (colorScheme w) (Run.Status run) (Run.Conclusion run) @ '' ''
            @ Bold (colorScheme w) (HeadBranch run) @ '' '' @ Run.Name run
            @ middot @ Cyan (colorScheme w) (fmt_d (Run.ID run)) @ nl)
          (Out (snd (renderRun env opts run jobs annotations w)))"
proof (cases "jobs = [] \<and> Run.Conclusion run = Failure")
  case True
  then show ?thesis
    by (simp add: renderRun_workflow_issue_Out header_def)
next
  case False
  then show ?thesis
    by (simp add: renderRun_normal_Out header_def)
qed

theorem renderRun_header_witness:
  "prefix (nl @ check_mark @ '' trunk successful'' @ middot @ ''3'' @ nl)
          (Out (snd (renderRun sample_env sample_opts good_run [cool_job] [] tty_world)))"
  using renderRun_header [of tty_world sample_env good_run sample_opts "[cool_job]" "[]"]
  by (simp add: sample_defs eval_defs)

text \<open>
  The header as the claim words it, branch and name run together, is not how the output
  for the sample run starts: the output has "trunk successful", the claim's header
  "trunksuccessful".
\<close>

theorem renderRun_header_counterexample:
  "\<not> prefix (Out tty_world @ spec_header sample_env (colorScheme tty_world) good_run)
            (Out (snd (renderRun sample_env sample_opts good_run [cool_job] [] tty_world)))
   \<and> spec_header sample_env (colorScheme tty_world) good_run
       = nl @ check_mark @ '' trunksuccessful'' @ middot @ ''3'' @ nl
   \<and> prefix (nl @ check_mark @ '' trunk successful'' @ middot @ ''3'' @ nl)
            (Out (snd (renderRun sample_env sample_opts good_run [cool_job] [] tty_world)))"
  by (simp add: renderRun_def Let_def titleForRun_def Cyanf_d_def sample_defs eval_defs)


text \<open>
  Claim C9, as amended.  When rendering reaches the annotations step (the branch for a
  failed run without jobs is not taken), the output has an ANNOTATIONS section exactly
  when the list of annotations is not empty: an empty line, the bold header, and for each
  annotation in order the line of its symbol and message, then the grayed text of
  \<open>job: path#line\<close> with the format's own newline inside the gray, then the newline
  that \<open>Fprintln\<close> adds.  With colours off every annotation is thus followed by an
  empty line.  (The claim as stated has two lines per annotation and nothing between
  consecutive annotations.)
\<close>

theorem renderRun_annotations:
  assumes "\<not> (jobs = [] \<and> Run.Conclusion run = Failure)"
  shows "Out (snd (renderRun env opts run jobs annotations w)) =
           Out w @ header env (colorScheme w) opts run
             @ Bold (colorScheme w) ''JOBS'' @ nl
             @ concat (map (job_block env (colorScheme w) opts) jobs)
             @ (if annotations = [] then []
                else nl @ Bold (colorScheme w) ''ANNOTATIONS'' @ nl
                     @ concat (map (\<lambda>a.
                          AnnotationSymbol env a (colorScheme w) @ '' '' @ Message a @ nl
                          @ Gray (colorScheme w)
                              (JobName a @ '': '' @ Path a @ ''#'' @ fmt_d (StartLine a) @ nl)
                          @ nl) annotations))
             @ footer env (colorScheme w) run"
proof -
  have al: "annotation_lines env (colorScheme w) = (\<lambda>a.
              AnnotationSymbol env a (colorScheme w) @ '' '' @ Message a @ nl
              @ Gray (colorScheme w)
                  (JobName a @ '': '' @ Path a @ ''#'' @ fmt_d (StartLine a) @ nl)
              @ nl)"
    by (rule ext) (simp add: annotation_lines_def)
  show ?thesis
    using renderRun_normal_Out [OF assms, of env opts annotations w]
    by (simp add: annotations_section_def al)
qed

theorem renderRun_annotations_witness:
  "\<not> ([cool_job, sad_job] = [] \<and> Run.Conclusion failed_run = Failure)
   \<and> Out (snd (renderRun sample_env sample_opts failed_run [cool_job, sad_job]
                 [sad_annotation] tty_world)) =
       header sample_env plain_cs sample_opts failed_run
       @ ''JOBS'' @ nl
       @ job_block sample_env plain_cs sample_opts cool_job
       @ job_block sample_env plain_cs sample_opts sad_job
       @ nl
       @ ''ANNOTATIONS'' @ nl
       @ ''X the job is sad'' @ nl
       @ ''sad job: blaze.py#420'' @ nl
       @ nl
       @ footer sample_env plain_cs failed_run
   \<and> Out (snd (renderRun sample_env sample_opts failed_run [cool_job, sad_job] [] tty_world)) =
       header sample_env plain_cs sample_opts failed_run
       @ ''JOBS'' @ nl
       @ job_block sample_env plain_cs sample_opts cool_job
       @ job_block sample_env plain_cs sample_opts sad_job
       @ footer sample_env plain_cs failed_run"
  using renderRun_annotations [of "[cool_job, sad_job]" failed_run sample_env sample_opts
          "[sad_annotation]" tty_world]
    renderRun_annotations [of "[cool_job, sad_job]" failed_run sample_env sample_opts
          "[]" tty_world]
  by (simp add: sample_defs eval_defs)

text \<open>
  With the two-line form of the claim in the place of the annotation, the text differs
  from what \<open>renderRun\<close> writes for the sample run: the loop writes three newlines
  for the annotation, the claim's form two.
\<close>

theorem renderRun_annotations_counterexample:
  "Out (snd (renderRun sample_env sample_opts failed_run [cool_job, sad_job]
              [sad_annotation] tty_world)) \<noteq>
       header sample_env plain_cs sample_opts failed_run
       @ ''JOBS'' @ nl
       @ job_block sample_env plain_cs sample_opts cool_job
       @ job_block sample_env plain_cs sample_opts sad_job
       @ nl
       @ ''ANNOTATIONS'' @ nl
       @ spec_annotation sample_env plain_cs sad_annotation
       @ footer sample_env plain_cs failed_run
   \<and> spec_annotation sample_env plain_cs sad_annotation =
       ''X the job is sad'' @ nl @ ''sad job: blaze.py#420'' @ nl
   \<and> Out (renderAnnotations sample_env plain_cs [sad_annotation] tty_world) =
       ''X the job is sad'' @ nl @ ''sad job: blaze.py#420'' @ nl @ nl"
  by (simp add: renderRun_def Let_def titleForRun_def Cyanf_d_def Grayf_def
        Fprint_def Fprintln_def sample_defs eval_defs)

text \<open>
  Claim C10.  For a run without jobs whose conclusion is anything but "failure" (other
  failure states included), the branch for a workflow file issue is not taken: the
  output is the header block, the bold JOBS header with no job line under it, the
  annotations section, and the footer; and the exit decision is applied as usual.
\<close>

theorem renderRun_no_jobs_other_conclusion:
  assumes "length jobs = 0" and "Run.Conclusion run \<noteq> Failure"
  shows "Out (snd (renderRun env opts run jobs annotations w)) =
           Out w @ header env (colorScheme w) opts run
             @ Bold (colorScheme w) ''JOBS'' @ nl
             @ annotations_section env (colorScheme w) annotations
             @ footer env (colorScheme w) run
         \<and> fst (renderRun env opts run jobs annotations w) =
             (if ExitStatus opts \<and> IsFailureState env (Run.Conclusion run)
              then Some SilentError else None)"
proof -
  from assms have "\<not> (jobs = [] \<and> Run.Conclusion run = Failure)" by simp
  from renderRun_normal_Out [OF this, of env opts annotations w] assms(1)
  have "Out (snd (renderRun env opts run jobs annotations w)) =
           Out w @ header env (colorScheme w) opts run
             @ Bold (colorScheme w) ''JOBS'' @ nl
             @ annotations_section env (colorScheme w) annotations
             @ footer env (colorScheme w) run"
    by simp
  moreover have "fst (renderRun env opts run jobs annotations w) =
             (if ExitStatus opts \<and> IsFailureState env (Run.Conclusion run)
              then Some SilentError else None)"
    by (simp add: renderRun_def Let_def)
  ultimately show ?thesis by simp
qed

theorem renderRun_no_jobs_other_conclusion_witness:
  "length ([] :: Job list) = 0 \<and> Run.Conclusion timed_out_run \<noteq> Failure
   \<and> Out (snd (renderRun sample_env (sample_opts\<lparr>ExitStatus := True\<rparr>) timed_out_run
                 [] [] tty_world)) =
       nl @ ''X trunk slow'' @ middot @ ''8'' @ nl
       @ ''Triggered via push about 59 minutes ago'' @ nl
       @ nl
       @ ''JOBS'' @ nl
       @ nl
       @ ''For more information about a job, try: gh job view <job-id>'' @ nl
       @ ''view this run on GitHub: runs/8'' @ nl
   \<and> fst (renderRun sample_env (sample_opts\<lparr>ExitStatus := True\<rparr>) timed_out_run
            [] [] tty_world) = Some SilentError"
  using renderRun_no_jobs_other_conclusion [of "[]" timed_out_run sample_env
          "sample_opts\<lparr>ExitStatus := True\<rparr>" "[]" tty_world]
  by (simp add: sample_defs eval_defs)


subsection \<open>What runView returns and calls\<close>

lemma runView_http_fails:
  assumes "ViewOptions.HttpClient opts = Inl e"
  shows "runView env opts w =
           (Some (Errorf ''failed to create http client: '' e), log_event CallHttpClient w)"
  using assms by (simp add: runView_def Let_def)

lemma runView_repo_fails:
  assumes "ViewOptions.HttpClient opts = Inr c" and "ViewOptions.BaseRepo opts = Inl e"
  shows "runView env opts w =
           (Some (Errorf ''failed to determine base repo: '' e),
            log_event CallBaseRepo (log_event CallHttpClient w))"
  using assms by (simp add: runView_def Let_def)

lemma runView_prompt_fails:
  assumes "ViewOptions.HttpClient opts = Inr c" and "ViewOptions.BaseRepo opts = Inr repo"
    and "Prompt opts"
    and "PromptForRun env (colorScheme w) (NewClientFromHTTP c) repo = Inl e"
  shows "runView env opts w =
           (Some e, log_event CallPromptForRun
                      (log_event CallBaseRepo (log_event CallHttpClient w)))"
  using assms by (simp add: runView_def Let_def)

lemma started_simps [simp]:
  "Out (started opts w) = Out w"
  "colorScheme (started opts w) = colorScheme w"
  "progressIndicator (started opts w) = (ShowProgress opts \<or> progressIndicator w)"
  "trace (started opts w) =
     trace w @ [CallHttpClient, CallBaseRepo]
       @ (if Prompt opts then [CallPromptForRun] else [])
       @ (if ShowProgress opts then [StartProgressIndicator] else [])"
  by (auto simp add: started_def Let_def)

lemma runView_run_fails:
  assumes "ViewOptions.HttpClient opts = Inr c" and "ViewOptions.BaseRepo opts = Inr repo"
    and "resolved env opts w (NewClientFromHTTP c) repo = Inr runID"
    and "GetRun env (NewClientFromHTTP c) repo runID = Inl e"
  shows "runView env opts w =
           (Some (Errorf ''failed to get run: '' e),
            log_event (CallGetRun runID) (started opts w))"
  using assms by (auto simp add: runView_def Let_def resolved_def started_def split: if_splits)

lemma runView_jobs_fail:
  assumes "ViewOptions.HttpClient opts = Inr c" and "ViewOptions.BaseRepo opts = Inr repo"
    and "resolved env opts w (NewClientFromHTTP c) repo = Inr runID"
    and "GetRun env (NewClientFromHTTP c) repo runID = Inr run"
    and "GetJobs env (NewClientFromHTTP c) repo run = Inl e"
  shows "runView env opts w =
           (Some (Errorf ''failed to get jobs: '' e),
            log_event (CallGetJobs run) (log_event (CallGetRun runID) (started opts w)))"
  using assms by (auto simp add: runView_def Let_def resolved_def started_def split: if_splits)

lemma runView_fetched:
  assumes "ViewOptions.HttpClient opts = Inr c" and "ViewOptions.BaseRepo opts = Inr repo"
    and "resolved env opts w (NewClientFromHTTP c) repo = Inr runID"
    and "GetRun env (NewClientFromHTTP c) repo runID = Inr run"
    and "GetJobs env (NewClientFromHTTP c) repo run = Inr jobs"
  shows "runView env opts w =
     (case annotationsLoop env (NewClientFromHTTP c) repo jobs []
             (log_event (CallGetJobs run) (log_event (CallGetRun runID) (started opts w))) of
        ((annotations, Some annotationErr), wg) \<Rightarrow>
          (Some (Errorf ''failed to get annotations: '' annotationErr), wg)
      | ((annotations, None), wg) \<Rightarrow>
          renderRun env opts run jobs annotations
            (if ShowProgress opts then StopProgress wg else wg))"
  using assms
  by (auto simp add: runView_def Let_def resolved_def started_def
        split: if_splits prod.splits option.splits)

lemma runView_annotations_abort:
  assumes "ViewOptions.HttpClient opts = Inr c" and "ViewOptions.BaseRepo opts = Inr repo"
    and "resolved env opts w (NewClientFromHTTP c) repo = Inr runID"
    and "GetRun env (NewClientFromHTTP c) repo runID = Inr run"
    and "GetJobs env (NewClientFromHTTP c) repo run = Inr (pre @ job # post)"
    and "\<forall>j \<in> set pre. \<exists>as. GetAnnotations env (NewClientFromHTTP c) repo j = Inr as"
    and "GetAnnotations env (NewClientFromHTTP c) repo job = Inl e"
  shows "fst (runView env opts w) = Some (Errorf ''failed to get annotations: '' e)
       \<and> Out (snd (runView env opts w)) = Out w
       \<and> trace (snd (runView env opts w)) =
           trace (started opts w) @ [CallGetRun runID, CallGetJobs run]
             @ map CallGetAnnotations pre @ [CallGetAnnotations job]"
proof -
  let ?wf = "log_event (CallGetJobs run) (log_event (CallGetRun runID) (started opts w))"
  from annotationsLoop_fails [OF assms(6,7), of post "[]" ?wf]
  obtain collected w' where
    loop: "annotationsLoop env (NewClientFromHTTP c) repo (pre @ job # post) [] ?wf
             = ((collected, Some e), w')"
    and tr: "trace w' = trace ?wf @ map CallGetAnnotations (pre @ [job])"
    and out: "Out w' = Out ?wf"
    by blast
  from runView_fetched [OF assms(1-5), of ] loop
  have "runView env opts w = (Some (Errorf ''failed to get annotations: '' e), w')"
    by simp
  with tr out show ?thesis by simp
qed


text \<open>
  Claim C5.  Annotations are fetched job by job in the order of the jobs.  When the
  fetch for a job fails after the fetches for all jobs before it succeeded, \<open>runView\<close>
  returns that error wrapped as "failed to get annotations", fetches nothing for the
  jobs after it, and writes nothing: what was collected from the earlier jobs is dropped
  and \<open>renderRun\<close> is not reached.
\<close>

theorem runView_annotations_fail_fast:
  assumes "ViewOptions.HttpClient opts = Inr c" and "ViewOptions.BaseRepo opts = Inr repo"
    and "resolved env opts w (NewClientFromHTTP c) repo = Inr runID"
    and "GetRun env (NewClientFromHTTP c) repo runID = Inr run"
    and "GetJobs env (NewClientFromHTTP c) repo run = Inr (pre @ job # post)"
    and "\<forall>j \<in> set pre. \<exists>as. GetAnnotations env (NewClientFromHTTP c) repo j = Inr as"
    and "GetAnnotations env (NewClientFromHTTP c) repo job = Inl e"
  shows "fst (runView env opts w) = Some (Errorf ''failed to get annotations: '' e)
       \<and> Out (snd (runView env opts w)) = Out w
       \<and> trace (snd (runView env opts w)) =
           trace w @ [CallHttpClient, CallBaseRepo]
             @ (if Prompt opts then [CallPromptForRun] else [])
             @ (if ShowProgress opts then [StartProgressIndicator] else [])
             @ [CallGetRun runID, CallGetJobs run]
             @ map CallGetAnnotations pre @ [CallGetAnnotations job]"
  using runView_annotations_abort [OF assms] by simp

theorem runView_annotations_fail_fast_witness:
  "ViewOptions.HttpClient (sample_opts\<lparr>RunID := ''500''\<rparr>) = Inr (HTTPClient ''github.com'')
   \<and> ViewOptions.BaseRepo (sample_opts\<lparr>RunID := ''500''\<rparr>) = Inr (Repo ''cli/cli'')
   \<and> resolved sample_env (sample_opts\<lparr>RunID := ''500''\<rparr>) tty_world
        (NewClientFromHTTP (HTTPClient ''github.com'')) (Repo ''cli/cli'') = Inr ''500''
   \<and> GetRun sample_env (NewClientFromHTTP (HTTPClient ''github.com'')) (Repo ''cli/cli'') ''500''
        = Inr flaky_run
   \<and> GetJobs sample_env (NewClientFromHTTP (HTTPClient ''github.com'')) (Repo ''cli/cli'') flaky_run
        = Inr ([sad_job] @ lost_job # [cool_job])
   \<and> GetAnnotations sample_env (NewClientFromHTTP (HTTPClient ''github.com'')) (Repo ''cli/cli'')
        sad_job = Inr [sad_annotation]
   \<and> GetAnnotations sample_env (NewClientFromHTTP (HTTPClient ''github.com'')) (Repo ''cli/cli'')
        lost_job = Inl (New ''HTTP 502: Bad Gateway'')
   \<and> fst (runView sample_env (sample_opts\<lparr>RunID := ''500''\<rparr>) tty_world)
        = Some (Errorf ''failed to get annotations: '' (New ''HTTP 502: Bad Gateway''))
   \<and> Out (snd (runView sample_env (sample_opts\<lparr>RunID := ''500''\<rparr>) tty_world)) = []
   \<and> trace (snd (runView sample_env (sample_opts\<lparr>RunID := ''500''\<rparr>) tty_world)) =
        [CallHttpClient, CallBaseRepo, CallGetRun ''500'', CallGetJobs flaky_run,
         CallGetAnnotations sad_job, CallGetAnnotations lost_job]"
proof -
  have h1: "ViewOptions.HttpClient (sample_opts\<lparr>RunID := ''500''\<rparr>) = Inr (HTTPClient ''github.com'')"
    by (simp add: sample_opts_def)
  have h2: "ViewOptions.BaseRepo (sample_opts\<lparr>RunID := ''500''\<rparr>) = Inr (Repo ''cli/cli'')"
    by (simp add: sample_opts_def)
  have h3: "resolved sample_env (sample_opts\<lparr>RunID := ''500''\<rparr>) tty_world
        (NewClientFromHTTP (HTTPClient ''github.com'')) (Repo ''cli/cli'') = Inr ''500''"
    by (simp add: resolved_def sample_opts_def)
  have h4: "GetRun sample_env (NewClientFromHTTP (HTTPClient ''github.com'')) (Repo ''cli/cli'') ''500''
        = Inr flaky_run"
    by (simp add: sample_env_def sample_GetRun_def)
  have h5: "GetJobs sample_env (NewClientFromHTTP (HTTPClient ''github.com'')) (Repo ''cli/cli'') flaky_run
        = Inr ([sad_job] @ lost_job # [cool_job])"
    by (simp add: sample_env_def sample_GetJobs_def flaky_run_def)
  have h6': "GetAnnotations sample_env (NewClientFromHTTP (HTTPClient ''github.com''))
        (Repo ''cli/cli'') sad_job = Inr [sad_annotation]"
    by (simp add: sample_env_def sample_GetAnnotations_def sad_job_def)
  then have h6: "\<forall>j \<in> set [sad_job]. \<exists>as. GetAnnotations sample_env
         (NewClientFromHTTP (HTTPClient ''github.com'')) (Repo ''cli/cli'') j = Inr as"
    by simp
  have h7: "GetAnnotations sample_env (NewClientFromHTTP (HTTPClient ''github.com'')) (Repo ''cli/cli'')
        lost_job = Inl (New ''HTTP 502: Bad Gateway'')"
    by (simp add: sample_env_def sample_GetAnnotations_def lost_job_def)
  have opts: "\<not> Prompt (sample_opts\<lparr>RunID := ''500''\<rparr>)"
      "\<not> ShowProgress (sample_opts\<lparr>RunID := ''500''\<rparr>)"
    by (simp_all add: sample_opts_def)
  have w: "Out tty_world = []" "trace tty_world = []"
    by (simp_all add: tty_world_def)
  from runView_annotations_fail_fast [OF h1 h2 h3 h4 h5 h6 h7] opts w
  have "fst (runView sample_env (sample_opts\<lparr>RunID := ''500''\<rparr>) tty_world)
        = Some (Errorf ''failed to get annotations: '' (New ''HTTP 502: Bad Gateway''))
   \<and> Out (snd (runView sample_env (sample_opts\<lparr>RunID := ''500''\<rparr>) tty_world)) = []
   \<and> trace (snd (runView sample_env (sample_opts\<lparr>RunID := ''500''\<rparr>) tty_world)) =
        [CallHttpClient, CallBaseRepo, CallGetRun ''500'', CallGetJobs flaky_run,
         CallGetAnnotations sad_job, CallGetAnnotations lost_job]"
    by simp
  with h1 h2 h3 h4 h5 h6' h7 show ?thesis by blast
qed

text \<open>
  Claim C6.  Without a run ID argument and with standard input or standard output not a
  terminal, the command returns the flag error "expected a run ID" at once: the world
  is returned unchanged, so no collaborator was called, neither \<open>runView\<close> nor a
  replacement \<open>runF\<close>.
\<close>

theorem RunE_requires_run_id:
  assumes "args = []" and "\<not> (isStdoutTTY w \<and> isStdinTTY w)"
  shows "RunE env f runF opts args w = (Some (FlagError (New ''expected a run ID'')), w)"
  using assms by (simp add: RunE_def Let_def)

theorem RunE_requires_run_id_witness:
  "([] :: string list) = [] \<and> \<not> (isStdoutTTY pipe_world \<and> isStdinTTY pipe_world)
   \<and> RunE sample_env sample_factory None
        (NewCmdView_opts sample_factory False False pipe_world) [] pipe_world
       = (Some (FlagError (New ''expected a run ID'')), pipe_world)
   \<and> trace pipe_world = []"
  using RunE_requires_run_id [of "[]" pipe_world sample_env sample_factory None
          "NewCmdView_opts sample_factory False False pipe_world"]
  by (simp add: pipe_world_def)

text \<open>
  Claim C4 does not hold of the code.  In a terminal session the indicator is started
  before \<open>GetRun\<close>; \<open>StopProgressIndicator\<close> is called only on the path that reaches
  \<open>renderRun\<close>.  Here the run 404 does not exist: the command returns the wrapped
  error of \<open>GetRun\<close> with the indicator still running, and the log has a start and no
  stop.
\<close>

theorem runView_leaves_indicator_running:
  "fst (RunE sample_env sample_factory None
          (NewCmdView_opts sample_factory False False tty_world) [''404''] tty_world)
     = Some (Errorf ''failed to get run: '' (New ''HTTP 404: Not Found''))
   \<and> progressIndicator (snd (RunE sample_env sample_factory None
          (NewCmdView_opts sample_factory False False tty_world) [''404''] tty_world)) = True
   \<and> trace (snd (RunE sample_env sample_factory None
          (NewCmdView_opts sample_factory False False tty_world) [''404''] tty_world))
     = [CallHttpClient, CallBaseRepo, StartProgressIndicator, CallGetRun ''404'']"
  by (simp add: RunE_def runView_def Let_def NewCmdView_opts_def sample_defs
        StartProgress_def log_event_def)


text \<open>
  Claim C7, as amended.  An error of the HTTP client construction, of the base
  repository resolution, of the run fetch, of the jobs fetch or of an annotations fetch
  is returned wrapped with the context of its stage; an error of the run prompt is
  returned as it is, with no context added.  In every case \<open>runView\<close> returns at once:
  the log ends with the call that failed, that call appears once, and nothing was
  written.  (The claim as stated has the prompt's error wrapped as well.)
\<close>

theorem runView_error_propagation:
  "(ViewOptions.HttpClient opts = Inl e \<longrightarrow>
      stops_with (runView env opts w) w
        (Errorf ''failed to create http client: '' e) [CallHttpClient])
   \<and> (ViewOptions.HttpClient opts = Inr c \<and> ViewOptions.BaseRepo opts = Inl e \<longrightarrow>
      stops_with (runView env opts w) w
        (Errorf ''failed to determine base repo: '' e) [CallHttpClient, CallBaseRepo])
   \<and> (ViewOptions.HttpClient opts = Inr c \<and> ViewOptions.BaseRepo opts = Inr repo
       \<and> Prompt opts
       \<and> PromptForRun env (colorScheme w) (NewClientFromHTTP c) repo = Inl e \<longrightarrow>
      stops_with (runView env opts w) w e [CallHttpClient, CallBaseRepo, CallPromptForRun])
   \<and> (ViewOptions.HttpClient opts = Inr c \<and> ViewOptions.BaseRepo opts = Inr repo
       \<and> resolved env opts w (NewClientFromHTTP c) repo = Inr runID
       \<and> GetRun env (NewClientFromHTTP c) repo runID = Inl e \<longrightarrow>
      stops_with (runView env opts w) w
        (Errorf ''failed to get run: '' e) (started_events opts @ [CallGetRun runID]))
   \<and> (ViewOptions.HttpClient opts = Inr c \<and> ViewOptions.BaseRepo opts = Inr repo
       \<and> resolved env opts w (NewClientFromHTTP c) repo = Inr runID
       \<and> GetRun env (NewClientFromHTTP c) repo runID = Inr run
       \<and> GetJobs env (NewClientFromHTTP c) repo run = Inl e \<longrightarrow>
      stops_with (runView env opts w) w
        (Errorf ''failed to get jobs: '' e)
        (started_events opts @ [CallGetRun runID, CallGetJobs run]))
   \<and> (ViewOptions.HttpClient opts = Inr c \<and> ViewOptions.BaseRepo opts = Inr repo
       \<and> resolved env opts w (NewClientFromHTTP c) repo = Inr runID
       \<and> GetRun env (NewClientFromHTTP c) repo runID = Inr run
       \<and> GetJobs env (NewClientFromHTTP c) repo run = Inr (pre @ job # post)
       \<and> (\<forall>j \<in> set pre. \<exists>as. GetAnnotations env (NewClientFromHTTP c) repo j = Inr as)
       \<and> GetAnnotations env (NewClientFromHTTP c) repo job = Inl e \<longrightarrow>
      stops_with (runView env opts w) w
        (Errorf ''failed to get annotations: '' e)
        (started_events opts @ [CallGetRun runID, CallGetJobs run]
           @ map CallGetAnnotations pre @ [CallGetAnnotations job]))"
proof (intro conjI impI)
  assume "ViewOptions.HttpClient opts = Inl e"
  then show "stops_with (runView env opts w) w
        (Errorf ''failed to create http client: '' e) [CallHttpClient]"
    by (simp add: runView_http_fails stops_with_def)
next
  assume "ViewOptions.HttpClient opts = Inr c \<and> ViewOptions.BaseRepo opts = Inl e"
  then show "stops_with (runView env opts w) w
        (Errorf ''failed to determine base repo: '' e) [CallHttpClient, CallBaseRepo]"
    by (simp add: runView_repo_fails stops_with_def)
next
  assume "ViewOptions.HttpClient opts = Inr c \<and> ViewOptions.BaseRepo opts = Inr repo
       \<and> Prompt opts
       \<and> PromptForRun env (colorScheme w) (NewClientFromHTTP c) repo = Inl e"
  then show "stops_with (runView env opts w) w e
        [CallHttpClient, CallBaseRepo, CallPromptForRun]"
    by (simp add: runView_prompt_fails stops_with_def)
next
  assume "ViewOptions.HttpClient opts = Inr c \<and> ViewOptions.BaseRepo opts = Inr repo
       \<and> resolved env opts w (NewClientFromHTTP c) repo = Inr runID
       \<and> GetRun env (NewClientFromHTTP c) repo runID = Inl e"
  then show "stops_with (runView env opts w) w
        (Errorf ''failed to get run: '' e) (started_events opts @ [CallGetRun runID])"
    by (simp add: runView_run_fails stops_with_def started_events_def)
next
  assume "ViewOptions.HttpClient opts = Inr c \<and> ViewOptions.BaseRepo opts = Inr repo
       \<and> resolved env opts w (NewClientFromHTTP c) repo = Inr runID
       \<and> GetRun env (NewClientFromHTTP c) repo runID = Inr run
       \<and> GetJobs env (NewClientFromHTTP c) repo run = Inl e"
  then show "stops_with (runView env opts w) w
        (Errorf ''failed to get jobs: '' e)
        (started_events opts @ [CallGetRun runID, CallGetJobs run])"
    by (simp add: runView_jobs_fail stops_with_def started_events_def)
next
  assume a: "ViewOptions.HttpClient opts = Inr c \<and> ViewOptions.BaseRepo opts = Inr repo
       \<and> resolved env opts w (NewClientFromHTTP c) repo = Inr runID
       \<and> GetRun env (NewClientFromHTTP c) repo runID = Inr run
       \<and> GetJobs env (NewClientFromHTTP c) repo run = Inr (pre @ job # post)
       \<and> (\<forall>j \<in> set pre. \<exists>as. GetAnnotations env (NewClientFromHTTP c) repo j = Inr as)
       \<and> GetAnnotations env (NewClientFromHTTP c) repo job = Inl e"
  then have "fst (runView env opts w) = Some (Errorf ''failed to get annotations: '' e)
       \<and> Out (snd (runView env opts w)) = Out w
       \<and> trace (snd (runView env opts w)) =
           trace (started opts w) @ [CallGetRun runID, CallGetJobs run]
             @ map CallGetAnnotations pre @ [CallGetAnnotations job]"
    using runView_annotations_abort [of opts c repo env w runID run pre job post e] by blast
  then show "stops_with (runView env opts w) w
        (Errorf ''failed to get annotations: '' e)
        (started_events opts @ [CallGetRun runID, CallGetJobs run]
           @ map CallGetAnnotations pre @ [CallGetAnnotations job])"
    by (simp add: stops_with_def started_events_def)
qed

theorem runView_error_propagation_witness:
  "stops_with (runView sample_env
       (sample_opts\<lparr>ViewOptions.HttpClient := Inl (New ''no token'')\<rparr>) tty_world) tty_world
     (Errorf ''failed to create http client: '' (New ''no token'')) [CallHttpClient]
   \<and> stops_with (runView sample_env
       (sample_opts\<lparr>ViewOptions.BaseRepo := Inl (New ''not a git repository'')\<rparr>) tty_world)
       tty_world
     (Errorf ''failed to determine base repo: '' (New ''not a git repository''))
     [CallHttpClient, CallBaseRepo]
   \<and> stops_with (runView sample_env
       (sample_opts\<lparr>ViewOptions.BaseRepo := Inr (Repo ''cli/empty''), Prompt := True\<rparr>)
       tty_world) tty_world
     (New ''no runs found'') [CallHttpClient, CallBaseRepo, CallPromptForRun]
   \<and> stops_with (runView sample_env (sample_opts\<lparr>RunID := ''404''\<rparr>) tty_world) tty_world
     (Errorf ''failed to get run: '' (New ''HTTP 404: Not Found''))
     [CallHttpClient, CallBaseRepo, CallGetRun ''404'']
   \<and> stops_with (runView sample_env (sample_opts\<lparr>RunID := ''8''\<rparr>) tty_world) tty_world
     (Errorf ''failed to get jobs: '' (New ''HTTP 500: Internal Server Error''))
     [CallHttpClient, CallBaseRepo, CallGetRun ''8'', CallGetJobs timed_out_run]
   \<and> stops_with (runView sample_env (sample_opts\<lparr>RunID := ''500''\<rparr>) tty_world) tty_world
     (Errorf ''failed to get annotations: '' (New ''HTTP 502: Bad Gateway''))
     [CallHttpClient, CallBaseRepo, CallGetRun ''500'', CallGetJobs flaky_run,
      CallGetAnnotations sad_job, CallGetAnnotations lost_job]"
proof -
  let ?c = "HTTPClient ''github.com''"
  let ?r = "Repo ''cli/cli''"
  from runView_error_propagation [where opts = "sample_opts\<lparr>ViewOptions.HttpClient := Inl (New ''no token'')\<rparr>"
      and e = "New ''no token''" and env = sample_env and w = tty_world]
  have s1: "stops_with (runView sample_env
       (sample_opts\<lparr>ViewOptions.HttpClient := Inl (New ''no token'')\<rparr>) tty_world) tty_world
     (Errorf ''failed to create http client: '' (New ''no token'')) [CallHttpClient]"
    by (simp add: sample_opts_def)
  from runView_error_propagation [where opts = "sample_opts\<lparr>ViewOptions.BaseRepo := Inl (New ''not a git repository'')\<rparr>"
      and e = "New ''not a git repository''" and env = sample_env and w = tty_world and c = ?c]
  have s2: "stops_with (runView sample_env
       (sample_opts\<lparr>ViewOptions.BaseRepo := Inl (New ''not a git repository'')\<rparr>) tty_world)
       tty_world
     (Errorf ''failed to determine base repo: '' (New ''not a git repository''))
     [CallHttpClient, CallBaseRepo]"
    by (simp add: sample_opts_def)
  from runView_error_propagation [where opts = "sample_opts\<lparr>ViewOptions.BaseRepo := Inr (Repo ''cli/empty''), Prompt := True\<rparr>"
      and e = "New ''no runs found''" and env = sample_env and w = tty_world and c = ?c
      and repo = "Repo ''cli/empty''"]
  have s3: "stops_with (runView sample_env
       (sample_opts\<lparr>ViewOptions.BaseRepo := Inr (Repo ''cli/empty''), Prompt := True\<rparr>)
       tty_world) tty_world
     (New ''no runs found'') [CallHttpClient, CallBaseRepo, CallPromptForRun]"
    by (simp add: sample_opts_def sample_env_def sample_PromptForRun_def)
  from runView_error_propagation [where opts = "sample_opts\<lparr>RunID := ''404''\<rparr>"
      and e = "New ''HTTP 404: Not Found''" and env = sample_env and w = tty_world and c = ?c
      and repo = ?r and runID = "''404''"]
  have s4: "stops_with (runView sample_env (sample_opts\<lparr>RunID := ''404''\<rparr>) tty_world) tty_world
     (Errorf ''failed to get run: '' (New ''HTTP 404: Not Found''))
     [CallHttpClient, CallBaseRepo, CallGetRun ''404'']"
    by (simp add: sample_opts_def sample_env_def sample_GetRun_def resolved_def
          started_events_def)
  from runView_error_propagation [where opts = "sample_opts\<lparr>RunID := ''8''\<rparr>"
      and e = "New ''HTTP 500: Internal Server Error''" and env = sample_env and w = tty_world
      and c = ?c and repo = ?r and runID = "''8''" and run = timed_out_run]
  have s5: "stops_with (runView sample_env (sample_opts\<lparr>RunID := ''8''\<rparr>) tty_world) tty_world
     (Errorf ''failed to get jobs: '' (New ''HTTP 500: Internal Server Error''))
     [CallHttpClient, CallBaseRepo, CallGetRun ''8'', CallGetJobs timed_out_run]"
    by (simp add: sample_opts_def sample_env_def sample_GetRun_def sample_GetJobs_def
          timed_out_run_def resolved_def started_events_def)
  from runView_error_propagation [where opts = "sample_opts\<lparr>RunID := ''500''\<rparr>"
      and e = "New ''HTTP 502: Bad Gateway''" and env = sample_env and w = tty_world
      and c = ?c and repo = ?r and runID = "''500''" and run = flaky_run
      and pre = "[sad_job]" and job = lost_job and post = "[cool_job]"]
  have s6: "stops_with (runView sample_env (sample_opts\<lparr>RunID := ''500''\<rparr>) tty_world) tty_world
     (Errorf ''failed to get annotations: '' (New ''HTTP 502: Bad Gateway''))
     [CallHttpClient, CallBaseRepo, CallGetRun ''500'', CallGetJobs flaky_run,
      CallGetAnnotations sad_job, CallGetAnnotations lost_job]"
    by (simp add: sample_opts_def sample_env_def sample_GetRun_def sample_GetJobs_def
          sample_GetAnnotations_def flaky_run_def sad_job_def lost_job_def resolved_def
          started_events_def)
  from s1 s2 s3 s4 s5 s6 show ?thesis by blast
qed

text \<open>
  The prompt fails in a repository without runs: \<open>runView\<close> returns the prompt's own
  error, which is not a wrapped error.
\<close>

theorem runView_prompt_error_counterexample:
  "PromptForRun sample_env (colorScheme tty_world) (NewClientFromHTTP (HTTPClient ''github.com''))
      (Repo ''cli/empty'') = Inl (New ''no runs found'')
   \<and> fst (runView sample_env
            (sample_opts\<lparr>ViewOptions.BaseRepo := Inr (Repo ''cli/empty''), Prompt := True\<rparr>)
            tty_world) = Some (New ''no runs found'')
   \<and> \<not> is_wrapped (New ''no runs found'')"
  by (simp add: runView_def Let_def sample_defs is_wrapped_def)

text \<open>The defect behind claim C4 in general: whenever the indicator was started and
  \<open>GetRun\<close> fails, \<open>runView\<close> returns with the indicator running.\<close>

lemma runView_error_keeps_indicator:
  assumes "ViewOptions.HttpClient opts = Inr c" and "ViewOptions.BaseRepo opts = Inr repo"
    and "resolved env opts w (NewClientFromHTTP c) repo = Inr runID"
    and "GetRun env (NewClientFromHTTP c) repo runID = Inl e"
    and "ShowProgress opts"
  shows "progressIndicator (snd (runView env opts w))"
  using assms by (simp add: runView_run_fails)



text \<open>The path on which every fetch succeeds: the annotations are those of the jobs in
  job order, the indicator is stopped before \<open>renderRun\<close> starts, and \<open>runView\<close>
  returns what \<open>renderRun\<close> returns.\<close>

lemma annotationsLoop_ok:
  assumes "\<forall>j \<in> set jobs. \<exists>as. GetAnnotations env client repo j = Inr as"
  shows "\<exists>w'. annotationsLoop env client repo jobs acc w
            = ((acc @ concat (map (\<lambda>j. projr (GetAnnotations env client repo j)) jobs), None), w')
          \<and> trace w' = trace w @ map CallGetAnnotations jobs
          \<and> Out w' = Out w \<and> progressIndicator w' = progressIndicator w
          \<and> colorScheme w' = colorScheme w"
  using assms
proof (induction jobs arbitrary: acc w)
  case Nil
  then show ?case by simp
next
  case (Cons j jobs)
  from Cons.prems obtain as where as: "GetAnnotations env client repo j = Inr as"
    by auto
  from Cons.prems have rest: "\<forall>j \<in> set jobs. \<exists>as. GetAnnotations env client repo j = Inr as"
    by simp
  from Cons.IH [OF rest, of "acc @ as" "log_event (CallGetAnnotations j) w"]
  show ?case using as by (auto simp add: Let_def)
qed

lemma runView_success:
  assumes "ViewOptions.HttpClient opts = Inr c" and "ViewOptions.BaseRepo opts = Inr repo"
    and "resolved env opts w (NewClientFromHTTP c) repo = Inr runID"
    and "GetRun env (NewClientFromHTTP c) repo runID = Inr run"
    and "GetJobs env (NewClientFromHTTP c) repo run = Inr jobs"
    and "\<forall>j \<in> set jobs. \<exists>as. GetAnnotations env (NewClientFromHTTP c) repo j = Inr as"
  shows "\<exists>wh. runView env opts w =
                renderRun env opts run jobs
                  (concat (map (\<lambda>j. projr (GetAnnotations env (NewClientFromHTTP c) repo j)) jobs))
                  wh
          \<and> Out wh = Out w
          \<and> progressIndicator wh = (\<not> ShowProgress opts \<and> progressIndicator w)
          \<and> trace wh = trace w @ started_events opts @ [CallGetRun runID, CallGetJobs run]
               @ map CallGetAnnotations jobs
               @ (if ShowProgress opts then [StopProgressIndicator] else [])"
proof -
  let ?wf = "log_event (CallGetJobs run) (log_event (CallGetRun runID) (started opts w))"
  from annotationsLoop_ok [OF assms(6), of "[]" ?wf]
  obtain wg where
    loop: "annotationsLoop env (NewClientFromHTTP c) repo jobs [] ?wf
             = ((concat (map (\<lambda>j. projr (GetAnnotations env (NewClientFromHTTP c) repo j)) jobs),
                 None), wg)"
    and tr: "trace wg = trace ?wf @ map CallGetAnnotations jobs"
    and out: "Out wg = Out ?wf"
    and pr: "progressIndicator wg = progressIndicator ?wf"
    by auto
  let ?wh = "if ShowProgress opts then StopProgress wg else wg"
  from runView_fetched [OF assms(1-5)] loop
  have "runView env opts w =
          renderRun env opts run jobs
            (concat (map (\<lambda>j. projr (GetAnnotations env (NewClientFromHTTP c) repo j)) jobs)) ?wh"
    by simp
  moreover have "Out ?wh = Out w" using out by simp
  moreover have "progressIndicator ?wh = (\<not> ShowProgress opts \<and> progressIndicator w)"
    using pr by simp
  moreover have "trace ?wh = trace w @ started_events opts @ [CallGetRun runID, CallGetJobs run]
               @ map CallGetAnnotations jobs
               @ (if ShowProgress opts then [StopProgressIndicator] else [])"
    using tr by (simp add: started_events_def)
  ultimately show ?thesis by blast
qed

subsection \<open>What the command returns after rendering\<close>

text \<open>With a run ID argument and no replacement \<open>runF\<close>, \<open>RunE\<close> hands over to
  \<open>runView\<close> and returns what it returns (lines 61-62 and 72).\<close>

lemma RunE_relays_runView:
  "RunE env f None opts0 (a # rest) w =
     runView env
       (opts0\<lparr>ViewOptions.BaseRepo := Factory.BaseRepo f,
              ShowProgress := (isStdoutTTY w \<and> isStdinTTY w),
              RunID := a\<rparr>) w"
  by (simp add: RunE_def Let_def)

text \<open>
  Claim C1.  When retrieval succeeds (client, repository, run ID, run, jobs and the
  annotations of every job were obtained), the command returns what \<open>renderRun\<close> returns
  (lines 136-141): \<open>cmdutil.SilentError\<close> exactly when \<open>--exit-status\<close> was given and the
  run's conclusion is a failure state, and \<open>nil\<close> otherwise.  The equation holds
  whichever branch \<open>renderRun\<close> takes, the one for a failed run without jobs or the
  normal one; in particular a run whose conclusion is not a failure state gives \<open>nil\<close>
  whatever the flag.  The second conjunct is the same decision for \<open>renderRun\<close> on any
  jobs, annotations and world.
\<close>

theorem runView_exit_signal:
  assumes "ViewOptions.HttpClient opts = Inr c" and "ViewOptions.BaseRepo opts = Inr repo"
    and "resolved env opts w (NewClientFromHTTP c) repo = Inr runID"
    and "GetRun env (NewClientFromHTTP c) repo runID = Inr run"
    and "GetJobs env (NewClientFromHTTP c) repo run = Inr jobs"
    and "\<forall>j \<in> set jobs. \<exists>as. GetAnnotations env (NewClientFromHTTP c) repo j = Inr as"
  shows "fst (runView env opts w) =
           (if ExitStatus opts \<and> IsFailureState env (Run.Conclusion run)
            then Some SilentError else None)
         \<and> fst (renderRun env opts run jobs' annotations w') =
           (if ExitStatus opts \<and> IsFailureState env (Run.Conclusion run)
            then Some SilentError else None)"
proof -
  from runView_success [OF assms] obtain wh where
    "runView env opts w =
       renderRun env opts run jobs
         (concat (map (\<lambda>j. projr (GetAnnotations env (NewClientFromHTTP c) repo j)) jobs)) wh"
    by blast
  then show ?thesis by (simp add: renderRun_exit_decision)
qed

theorem runView_exit_signal_witness:
  "ViewOptions.HttpClient (sample_opts\<lparr>ExitStatus := True\<rparr>) = Inr (HTTPClient ''github.com'')
   \<and> ViewOptions.BaseRepo (sample_opts\<lparr>ExitStatus := True\<rparr>) = Inr (Repo ''cli/cli'')
   \<and> resolved sample_env (sample_opts\<lparr>ExitStatus := True\<rparr>) tty_world
        (NewClientFromHTTP (HTTPClient ''github.com'')) (Repo ''cli/cli'') = Inr ''1234''
   \<and> GetRun sample_env (NewClientFromHTTP (HTTPClient ''github.com'')) (Repo ''cli/cli'') ''1234''
        = Inr failed_run
   \<and> GetJobs sample_env (NewClientFromHTTP (HTTPClient ''github.com'')) (Repo ''cli/cli'')
        failed_run = Inr [cool_job, sad_job]
   \<and> GetAnnotations sample_env (NewClientFromHTTP (HTTPClient ''github.com'')) (Repo ''cli/cli'')
        cool_job = Inr []
   \<and> GetAnnotations sample_env (NewClientFromHTTP (HTTPClient ''github.com'')) (Repo ''cli/cli'')
        sad_job = Inr [sad_annotation]
   \<and> fst (runView sample_env (sample_opts\<lparr>ExitStatus := True\<rparr>) tty_world)
        = Some SilentError
   \<and> fst (runView sample_env sample_opts tty_world) = None
   \<and> fst (runView sample_env (sample_opts\<lparr>RunID := ''7'', ExitStatus := True\<rparr>) tty_world)
        = Some SilentError
   \<and> fst (runView sample_env (sample_opts\<lparr>RunID := ''3'', ExitStatus := True\<rparr>) tty_world)
        = None"
proof -
  let ?c = "HTTPClient ''github.com''"
  let ?r = "Repo ''cli/cli''"
  have g1: "GetRun sample_env (NewClientFromHTTP ?c) ?r ''1234'' = Inr failed_run"
    and g7: "GetRun sample_env (NewClientFromHTTP ?c) ?r ''7'' = Inr broken_run"
    and g3: "GetRun sample_env (NewClientFromHTTP ?c) ?r ''3'' = Inr good_run"
    by (simp_all add: sample_env_def sample_GetRun_def)
  have j1: "GetJobs sample_env (NewClientFromHTTP ?c) ?r failed_run = Inr [cool_job, sad_job]"
    and j7: "GetJobs sample_env (NewClientFromHTTP ?c) ?r broken_run = Inr []"
    and j3: "GetJobs sample_env (NewClientFromHTTP ?c) ?r good_run = Inr [cool_job]"
    by (simp_all add: sample_env_def sample_GetJobs_def failed_run_def broken_run_def
          good_run_def)
  have ac: "GetAnnotations sample_env (NewClientFromHTTP ?c) ?r cool_job = Inr []"
    and asad: "GetAnnotations sample_env (NewClientFromHTTP ?c) ?r sad_job = Inr [sad_annotation]"
    by (simp_all add: sample_env_def sample_GetAnnotations_def cool_job_def sad_job_def)
  have a1: "\<forall>j \<in> set [cool_job, sad_job].
              \<exists>as. GetAnnotations sample_env (NewClientFromHTTP ?c) ?r j = Inr as"
    and a7: "\<forall>j \<in> set ([] :: Job list).
              \<exists>as. GetAnnotations sample_env (NewClientFromHTTP ?c) ?r j = Inr as"
    and a3: "\<forall>j \<in> set [cool_job].
              \<exists>as. GetAnnotations sample_env (NewClientFromHTTP ?c) ?r j = Inr as"
    using ac asad by simp_all
  have h1: "ViewOptions.HttpClient (sample_opts\<lparr>ExitStatus := True\<rparr>) = Inr ?c"
    and h2: "ViewOptions.BaseRepo (sample_opts\<lparr>ExitStatus := True\<rparr>) = Inr ?r"
    and h3: "resolved sample_env (sample_opts\<lparr>ExitStatus := True\<rparr>) tty_world
               (NewClientFromHTTP ?c) ?r = Inr ''1234''"
    by (simp_all add: sample_opts_def resolved_def)
  have failing: "IsFailureState sample_env (Run.Conclusion failed_run)"
      "IsFailureState sample_env (Run.Conclusion broken_run)"
      "\<not> IsFailureState sample_env (Run.Conclusion good_run)"
    by (simp_all add: sample_env_def sample_IsFailureState_def failed_run_def broken_run_def
          good_run_def)
  from runView_exit_signal [OF h1 h2 h3 g1 j1 a1] failing
  have r1: "fst (runView sample_env (sample_opts\<lparr>ExitStatus := True\<rparr>) tty_world)
              = Some SilentError"
    by (simp add: sample_opts_def)
  from runView_exit_signal [where opts = sample_opts and c = ?c and repo = ?r
         and env = sample_env and w = tty_world and runID = "''1234''" and run = failed_run
         and jobs = "[cool_job, sad_job]", OF _ _ _ g1 j1 a1]
  have r2: "fst (runView sample_env sample_opts tty_world) = None"
    by (simp add: sample_opts_def resolved_def)
  from runView_exit_signal [where opts = "sample_opts\<lparr>RunID := ''7'', ExitStatus := True\<rparr>"
         and c = ?c and repo = ?r and env = sample_env and w = tty_world and runID = "''7''"
         and run = broken_run and jobs = "[]", OF _ _ _ g7 j7 a7] failing
  have r3: "fst (runView sample_env (sample_opts\<lparr>RunID := ''7'', ExitStatus := True\<rparr>)
              tty_world) = Some SilentError"
    by (simp add: sample_opts_def resolved_def)
  from runView_exit_signal [where opts = "sample_opts\<lparr>RunID := ''3'', ExitStatus := True\<rparr>"
         and c = ?c and repo = ?r and env = sample_env and w = tty_world and runID = "''3''"
         and run = good_run and jobs = "[cool_job]", OF _ _ _ g3 j3 a3] failing
  have r4: "fst (runView sample_env (sample_opts\<lparr>RunID := ''3'', ExitStatus := True\<rparr>)
              tty_world) = None"
    by (simp add: sample_opts_def resolved_def)
  from h1 h2 h3 g1 j1 ac asad r1 r2 r3 r4 show ?thesis by blast
qed

end
